theory Spec2Isabelle
  imports Complex_Main "HOL-Library.AList" "HOL-Library.Log_Nat"
begin

section \<open>The matchmaking service\<close>

text \<open>
  A shallow embedding of \<^verbatim>\<open>MatchmakingService\<close>. The service object is a record that
  every operation takes and returns. Python dictionaries keep insertion order and the
  pairing loop depends on it, so each dictionary is an association list with the
  dictionary's behaviour: \<open>d[k] = v\<close> is \<open>AList.update k v d\<close> (an existing key keeps its
  place, a new key goes to the end), \<open>d.pop(k, None)\<close> is \<open>AList.delete k d\<close>, a lookup is
  \<open>map_of d k\<close>.

  The wall clock is an input. A reading of \<^verbatim>\<open>datetime.utcnow()\<close> or \<^verbatim>\<open>time.time()\<close> is a
  rational number of seconds since the epoch; a tick, which reads the clock several
  times, takes the sequence of its readings (\<open>clock n\<close> is the reading of the \<open>n\<close>-th
  call) and a counter.

  A Python float is a double: a rational with a 53-bit significand. The quotient
  \<^verbatim>\<open>player_elo / 100\<close> and the product \<^verbatim>\<open>time.time() * 1000\<close> are rounded to the nearest
  double, a tie to the even significand, as the hardware rounds them (\<open>float_round\<close>),
  and a quotient beyond the largest double is Python's \<^verbatim>\<open>OverflowError\<close>. The wait time
  of a waiter is computed on the rationals: it can differ from the float only when it lies
  within a float's rounding error of a threshold (10 or 30 seconds, a whole number of
  ten-second steps).
\<close>

subsection \<open>Python's numeric conversions\<close>

definition py_int :: "rat \<Rightarrow> int" where
  \<comment> \<open>\<^verbatim>\<open>int(x)\<close> on a float: truncation towards zero.\<close>
  "py_int x = (if 0 \<le> x then \<lfloor>x\<rfloor> else \<lceil>x\<rceil>)"

definition py_round :: "rat \<Rightarrow> int" where
  \<comment> \<open>\<^verbatim>\<open>round(x)\<close> with one argument: to the nearest integer, a tie to the even one.\<close>
  "py_round x =
     (let f = \<lfloor>x\<rfloor>; d = x - of_int f
      in if d < 1 / 2 then f
         else if 1 / 2 < d then f + 1
         else if even f then f else f + 1)"

definition ilog2 :: "rat \<Rightarrow> int" where
  \<comment> \<open>The binary exponent of a positive rational: \<open>2 powi (ilog2 a) \<le> a < 2 powi (ilog2 a + 1)\<close>;
      \<open>bitlen\<close> is the bit length of an integer.\<close>
  "ilog2 a = (if 1 \<le> a then bitlen \<lfloor>a\<rfloor> - 1 else - bitlen (\<lceil>1 / a\<rceil> - 1))"

definition float_ulp :: "rat \<Rightarrow> rat" where
  \<comment> \<open>The spacing of the doubles around \<open>x\<close>: 52 binary places below the exponent of
      \<open>x\<close>, and never below the subnormal spacing.\<close>
  "float_ulp x = 2 powi (max (ilog2 \<bar>x\<bar>) (- 1022) - 52)"

definition float_round :: "rat \<Rightarrow> rat" where
  \<comment> \<open>The double nearest to \<open>x\<close>, a tie to the even significand (the exponent not
      bounded above).\<close>
  "float_round x = (if x = 0 then 0 else of_int (py_round (x / float_ulp x)) * float_ulp x)"

definition float_overflow :: "rat \<Rightarrow> bool" where
  \<comment> \<open>The rounded value is \<open>2^1024\<close> or more in absolute value: no double holds it.\<close>
  "float_overflow x = (x \<noteq> 0 \<and> 1024 \<le> ilog2 \<bar>float_round x\<bar>)"

definition digit_char :: "nat \<Rightarrow> char" where
  "digit_char d = ''0123456789'' ! (d mod 10)"

fun str_nat :: "nat \<Rightarrow> string" where
  "str_nat n = (if n < 10 then [digit_char n] else str_nat (n div 10) @ [digit_char (n mod 10)])"

definition str_int :: "int \<Rightarrow> string" where
  \<comment> \<open>\<^verbatim>\<open>str(i)\<close>, as the f-string \<^verbatim>\<open>f"bot_{bot_level}"\<close> formats its field.\<close>
  "str_int i = (if i < 0 then CHR ''-'' # str_nat (nat (- i)) else str_nat (nat i))"

subsection \<open>Data\<close>

datatype OpponentType = HUMAN | AI | ANY

record QueuedPlayer =
  player_address :: string
  elo :: int
  preferred_opponent :: OpponentType
  queued_at :: rat
  min_elo :: int
  max_elo :: int

record MatchResult =
  player1 :: string
  player2 :: string
  player1_elo :: int
  player2_elo :: int
  game_id :: int
  is_bot_match :: bool
  bot_level :: "int option"

text \<open>
  The request object. The class \<^verbatim>\<open>MatchmakingRequest\<close> of models/schemas.py declares
  \<^verbatim>\<open>player\<close>, \<^verbatim>\<open>preferred_opponent\<close>, \<^verbatim>\<open>min_elo\<close> and \<^verbatim>\<open>max_elo\<close>, and no
  \<^verbatim>\<open>player_elo\<close>, which \<^verbatim>\<open>queue_player\<close> reads. So \<open>req_player_elo\<close> is optional:
  \<open>None\<close> for an instance of the declared class, on which the attribute access raises
  \<^verbatim>\<open>AttributeError\<close>, and \<open>Some e\<close> for an object that carries the attribute.
\<close>

record MatchmakingRequest =
  req_player :: string
  req_player_elo :: "int option"
  req_preferred_opponent :: OpponentType
  req_min_elo :: int
  req_max_elo :: int

record QueueStatus =
  is_queued :: bool
  queue_position :: int
  estimated_wait_seconds :: int
  status_preferred_opponent :: OpponentType

record BotConfig =
  bot_elo :: int
  aggression :: int
  error_rate :: int

datatype error = KeyError | AttributeError | OverflowError

type_synonym queue = "(int \<times> QueuedPlayer) list"

record service =
  human_queue :: queue
  ai_queue :: queue
  any_queue :: queue
  player_lookup :: "(string \<times> int) list"
  active_games :: "(int \<times> MatchResult) list"

subsection \<open>Constants and construction\<close>

definition ELO_RANGE :: int where
  "ELO_RANGE = 200"

definition MAX_WAIT_EXPAND_TIME :: rat where
  "MAX_WAIT_EXPAND_TIME = 30"

definition ELO_EXPAND_RATE :: int where
  "ELO_EXPAND_RATE = 50"

definition bot_configs :: "(int \<times> BotConfig) list" where
  \<comment> \<open>\<^verbatim>\<open>_init_bot_configs\<close>\<close>
  "bot_configs =
     [(1, \<lparr>bot_elo = 400, aggression = 10, error_rate = 30\<rparr>),
      (2, \<lparr>bot_elo = 600, aggression = 15, error_rate = 25\<rparr>),
      (3, \<lparr>bot_elo = 800, aggression = 20, error_rate = 20\<rparr>),
      (4, \<lparr>bot_elo = 1000, aggression = 25, error_rate = 15\<rparr>),
      (5, \<lparr>bot_elo = 1200, aggression = 30, error_rate = 12\<rparr>),
      (6, \<lparr>bot_elo = 1400, aggression = 35, error_rate = 10\<rparr>),
      (7, \<lparr>bot_elo = 1600, aggression = 40, error_rate = 8\<rparr>),
      (8, \<lparr>bot_elo = 1800, aggression = 45, error_rate = 6\<rparr>),
      (9, \<lparr>bot_elo = 2000, aggression = 50, error_rate = 4\<rparr>),
      (10, \<lparr>bot_elo = 2200, aggression = 55, error_rate = 2\<rparr>)]"

definition init :: service where
  \<comment> \<open>\<^verbatim>\<open>__init__\<close>: three empty queues, an empty index, no active game.\<close>
  "init = \<lparr>human_queue = [], ai_queue = [], any_queue = [], player_lookup = [],
           active_games = []\<rparr>"

subsection \<open>Queue management\<close>

definition get_queue :: "service \<Rightarrow> OpponentType \<Rightarrow> queue" where
  \<comment> \<open>\<^verbatim>\<open>_get_queue\<close>\<close>
  "get_queue s opponent_type =
     (if opponent_type = HUMAN then human_queue s
      else if opponent_type = AI then ai_queue s
      else any_queue s)"

definition set_queue :: "OpponentType \<Rightarrow> queue \<Rightarrow> service \<Rightarrow> service" where
  \<comment> \<open>A write through the reference that \<^verbatim>\<open>_get_queue\<close> returned.\<close>
  "set_queue opponent_type q s =
     (if opponent_type = HUMAN then s\<lparr>human_queue := q\<rparr>
      else if opponent_type = AI then s\<lparr>ai_queue := q\<rparr>
      else s\<lparr>any_queue := q\<rparr>)"

definition elo_bucket :: "int \<Rightarrow> error + int" where
  \<comment> \<open>\<^verbatim>\<open>round(player_elo / 100) * 100\<close>, written out in \<^verbatim>\<open>queue_player\<close> and in both
      removal loops. The division of two integers gives the double nearest to the
      quotient, or raises \<^verbatim>\<open>OverflowError\<close> when there is none; \<^verbatim>\<open>round\<close> and the
      multiplication are on integers.\<close>
  "elo_bucket e =
     (if float_overflow (of_int e / 100) then Inl OverflowError
      else Inr (py_round (float_round (of_int e / 100)) * 100))"

definition get_queue_position :: "service \<Rightarrow> QueuedPlayer \<Rightarrow> int" where
  \<comment> \<open>\<^verbatim>\<open>_get_queue_position\<close>: one more than the number of entries of the player's queue
      whose bucket is within range and whose waiter queued earlier.\<close>
  "get_queue_position s p =
     1 + int (length (filter
           (\<lambda>(b, queued). \<bar>b - elo p\<bar> \<le> ELO_RANGE \<and> queued_at queued < queued_at p)
           (get_queue s (preferred_opponent p))))"

definition estimate_wait_time :: "service \<Rightarrow> OpponentType \<Rightarrow> int" where
  \<comment> \<open>\<^verbatim>\<open>_estimate_wait_time\<close>\<close>
  "estimate_wait_time s opponent_type =
     (let queue_size = length (get_queue s opponent_type)
      in if queue_size = 0 then 5
         else if queue_size < 5 then 15
         else if queue_size < 10 then 30
         else 60)"

definition store_player :: "rat \<Rightarrow> service \<Rightarrow> MatchmakingRequest \<Rightarrow> int \<Rightarrow> int \<Rightarrow>
    QueueStatus \<times> service" where
  \<comment> \<open>The body of \<^verbatim>\<open>queue_player\<close> from the construction of the \<^verbatim>\<open>QueuedPlayer\<close> on,
      for the rating \<open>e\<close> and the bucket \<open>b\<close> computed from it.\<close>
  "store_player now s request e b =
     (let player = \<lparr>player_address = req_player request,
                    elo = e,
                    preferred_opponent = req_preferred_opponent request,
                    queued_at = now,
                    min_elo = req_min_elo request,
                    max_elo = req_max_elo request\<rparr>;
          s1 = set_queue (req_preferred_opponent request)
                 (AList.update b player (get_queue s (req_preferred_opponent request))) s;
          s2 = s1\<lparr>player_lookup := AList.update (req_player request) b (player_lookup s1)\<rparr>
      in (\<lparr>is_queued = True,
           queue_position = get_queue_position s2 player,
           estimated_wait_seconds = estimate_wait_time s2 (req_preferred_opponent request),
           status_preferred_opponent = req_preferred_opponent request\<rparr>, s2))"

definition queue_player :: "rat \<Rightarrow> service \<Rightarrow> MatchmakingRequest \<Rightarrow>
    error + QueueStatus \<times> service" where
  \<comment> \<open>\<^verbatim>\<open>queue_player\<close>; \<open>now\<close> is the reading of \<^verbatim>\<open>datetime.utcnow()\<close>. The bucket is
      computed first: the read of \<^verbatim>\<open>request.player_elo\<close> raises \<^verbatim>\<open>AttributeError\<close> on
      a request without it, the division raises \<^verbatim>\<open>OverflowError\<close> on a rating too
      large, both before any write. The function has no other check and no \<^verbatim>\<open>raise\<close>
      of its own.\<close>
  "queue_player now s request =
     (case req_player_elo request of
        None \<Rightarrow> Inl AttributeError
      | Some e \<Rightarrow>
          (case elo_bucket e of
             Inl err \<Rightarrow> Inl err
           | Inr b \<Rightarrow> Inr (store_player now s request e b)))"

definition cancel_queue :: "service \<Rightarrow> string \<Rightarrow> bool \<times> service" where
  \<comment> \<open>\<^verbatim>\<open>cancel_queue\<close>: the bucket recorded for the address is popped from all three
      queues, then the address leaves the index.\<close>
  "cancel_queue s address =
     (case map_of (player_lookup s) address of
        None \<Rightarrow> (False, s)
      | Some b \<Rightarrow>
          (True, s\<lparr>human_queue := AList.delete b (human_queue s),
                   ai_queue := AList.delete b (ai_queue s),
                   any_queue := AList.delete b (any_queue s),
                   player_lookup := AList.delete address (player_lookup s)\<rparr>))"

subsection \<open>Synthetic opponents and game identifiers\<close>

definition find_bot_level :: "int \<Rightarrow> int" where
  \<comment> \<open>\<^verbatim>\<open>_find_bot_level\<close>; Python's \<^verbatim>\<open>//\<close> rounds down, as \<open>div\<close> on \<open>int\<close> does.\<close>
  "find_bot_level e = max 1 (min 10 ((e - 200) div 200 + 1))"

definition generate_game_id :: "rat \<Rightarrow> int" where
  \<comment> \<open>\<^verbatim>\<open>_generate_game_id\<close>; \<^verbatim>\<open>time.time()\<close> returns the double nearest to the instant
      \<open>t\<close>, and the product with 1000 is a double again (finite: a reading of the clock
      is far below the largest double).\<close>
  "generate_game_id t = py_int (float_round (float_round t * 1000)) mod 10000000000"

definition create_match ::
  "rat \<Rightarrow> service \<Rightarrow> QueuedPlayer \<Rightarrow> QueuedPlayer \<Rightarrow> bool \<Rightarrow> int option \<Rightarrow> service" where
  \<comment> \<open>\<^verbatim>\<open>_create_match\<close>; \<open>t\<close> is the clock reading its game id is made from.\<close>
  "create_match t s p1 p2 is_bot level =
     (let gid = generate_game_id t;
          white_player = (if elo p1 \<ge> elo p2 then player_address p1 else player_address p2);
          black_player = (if elo p1 \<ge> elo p2 then player_address p2 else player_address p1);
          m = \<lparr>player1 = white_player,
               player2 = black_player,
               player1_elo = (if white_player = player_address p1 then elo p1 else elo p2),
               player2_elo = (if black_player = player_address p2 then elo p2 else elo p1),
               game_id = gid,
               is_bot_match = is_bot,
               bot_level = level\<rparr>
      in s\<lparr>active_games := AList.update gid m (active_games s)\<rparr>)"

definition create_bot_match :: "rat \<Rightarrow> service \<Rightarrow> QueuedPlayer \<Rightarrow> error + service" where
  \<comment> \<open>\<^verbatim>\<open>_create_bot_match\<close>; the subscript \<^verbatim>\<open>self.bot_configs[bot_level]\<close> raises
      \<^verbatim>\<open>KeyError\<close> on a missing level.\<close>
  "create_bot_match t s p =
     (let level = find_bot_level (elo p)
      in case map_of bot_configs level of
           None \<Rightarrow> Inl KeyError
         | Some bot_config \<Rightarrow>
             (let gid = generate_game_id t;
                  m = \<lparr>player1 = player_address p,
                       player2 = ''bot_'' @ str_int level,
                       player1_elo = elo p,
                       player2_elo = bot_elo bot_config,
                       game_id = gid,
                       is_bot_match = True,
                       bot_level = Some level\<rparr>
              in Inr (s\<lparr>active_games := AList.update gid m (active_games s)\<rparr>)))"

subsection \<open>The pairing tick\<close>

definition wait_time :: "rat \<Rightarrow> QueuedPlayer \<Rightarrow> rat" where
  \<comment> \<open>\<^verbatim>\<open>QueuedPlayer.wait_time\<close>, in seconds; \<open>now\<close> is the reading of
      \<^verbatim>\<open>datetime.utcnow()\<close>.\<close>
  "wait_time now p = now - queued_at p"

definition expanded_range :: "rat \<Rightarrow> int" where
  \<comment> \<open>The range computed at the head of the loop body of \<^verbatim>\<open>_match_players\<close> from the
      waiter's wait time \<open>w\<close>.\<close>
  "expanded_range w =
     (if w > MAX_WAIT_EXPAND_TIME
      then ELO_RANGE + py_int ((w - MAX_WAIT_EXPAND_TIME) / 10) * ELO_EXPAND_RATE
      else ELO_RANGE)"

fun find_partner :: "queue \<Rightarrow> QueuedPlayer \<Rightarrow> QueuedPlayer list \<Rightarrow> int \<Rightarrow> QueuedPlayer option" where
  \<comment> \<open>The inner loop of \<^verbatim>\<open>_match_players\<close> up to its \<^verbatim>\<open>break\<close>: the first entry that is
      neither the player nor in \<^verbatim>\<open>to_remove\<close> (both compared as whole records, the
      dataclass equality) and whose rating is within the range.\<close>
  "find_partner [] p to_remove r = None"
| "find_partner ((other_bucket, other_player) # rest) p to_remove r =
     (if other_player = p \<or> other_player \<in> set to_remove then find_partner rest p to_remove r
      else if \<bar>elo other_player - elo p\<bar> \<le> r then Some other_player
      else find_partner rest p to_remove r)"

text \<open>
  The loop state of a tick: the number of clock readings taken so far, the service and
  the list \<^verbatim>\<open>to_remove\<close>.
\<close>

type_synonym tick_state = "nat \<times> service \<times> QueuedPlayer list"

definition match_player :: "(nat \<Rightarrow> rat) \<Rightarrow> OpponentType \<Rightarrow> queue \<Rightarrow> QueuedPlayer \<Rightarrow>
    tick_state \<Rightarrow> error + tick_state" where
  \<comment> \<open>One pass of the outer loop body of \<^verbatim>\<open>_match_players\<close> for the entry \<open>p\<close>; \<open>items\<close>
      is \<^verbatim>\<open>list(queue.items())\<close>, the same in every pass since the queue changes only
      after the loop.\<close>
  "match_player clock queue_type items p st =
     (case st of (n, s, to_remove) \<Rightarrow>
        if p \<in> set to_remove then Inr st
        else
          (let r = expanded_range (wait_time (clock n) p);
               st1 = (case find_partner items p to_remove r of
                        None \<Rightarrow> (n + 1, s, to_remove)
                      | Some other_player \<Rightarrow>
                          (n + 2, create_match (clock (n + 1)) s p other_player False None,
                           to_remove @ [p, other_player]))
           in case st1 of (n1, s1, to_remove1) \<Rightarrow>
                if queue_type = ANY \<and> p \<notin> set to_remove1 then
                  (if wait_time (clock n1) p > 10 then
                     (case create_bot_match (clock (n1 + 1)) s1 p of
                        Inl e \<Rightarrow> Inl e
                      | Inr s2 \<Rightarrow> Inr (n1 + 2, s2, to_remove1 @ [p]))
                   else Inr (n1 + 1, s1, to_remove1))
                else Inr st1))"

fun match_loop :: "(nat \<Rightarrow> rat) \<Rightarrow> OpponentType \<Rightarrow> queue \<Rightarrow> queue \<Rightarrow> tick_state \<Rightarrow>
    error + tick_state" where
  \<comment> \<open>The outer loop of \<^verbatim>\<open>_match_players\<close> over the entries still to visit; an
      exception ends it.\<close>
  "match_loop clock queue_type items [] st = Inr st"
| "match_loop clock queue_type items ((b, p) # rest) st =
     (case match_player clock queue_type items p st of
        Inl e \<Rightarrow> Inl e
      | Inr st' \<Rightarrow> match_loop clock queue_type items rest st')"

fun remove_matched :: "OpponentType \<Rightarrow> QueuedPlayer list \<Rightarrow> service \<Rightarrow> error + service" where
  \<comment> \<open>The removal loop that closes \<^verbatim>\<open>_match_players\<close> and \<^verbatim>\<open>_match_ai_players\<close>; it
      computes the bucket of each waiter anew.\<close>
  "remove_matched queue_type [] s = Inr s"
| "remove_matched queue_type (p # to_remove) s =
     (case elo_bucket (elo p) of
        Inl err \<Rightarrow> Inl err
      | Inr b \<Rightarrow>
          remove_matched queue_type to_remove
            ((set_queue queue_type (AList.delete b (get_queue s queue_type)) s)
               \<lparr>player_lookup := AList.delete (player_address p) (player_lookup s)\<rparr>))"

definition match_players :: "(nat \<Rightarrow> rat) \<Rightarrow> OpponentType \<Rightarrow> nat \<times> service \<Rightarrow>
    error + nat \<times> service" where
  \<comment> \<open>\<^verbatim>\<open>_match_players(queue, queue_type)\<close>; both call sites pass the queue of
      \<open>queue_type\<close>.\<close>
  "match_players clock queue_type ns =
     (case ns of (n, s) \<Rightarrow>
        (case match_loop clock queue_type (get_queue s queue_type) (get_queue s queue_type)
                (n, s, []) of
           Inl e \<Rightarrow> Inl e
         | Inr (n', s', to_remove) \<Rightarrow>
             (case remove_matched queue_type to_remove s' of
                Inl e \<Rightarrow> Inl e
              | Inr s'' \<Rightarrow> Inr (n', s''))))"

fun match_ai_loop :: "(nat \<Rightarrow> rat) \<Rightarrow> queue \<Rightarrow> tick_state \<Rightarrow> error + tick_state" where
  \<comment> \<open>The first loop of \<^verbatim>\<open>_match_ai_players\<close>.\<close>
  "match_ai_loop clock [] st = Inr st"
| "match_ai_loop clock ((b, p) # rest) (n, s, to_remove) =
     (case create_bot_match (clock n) s p of
        Inl e \<Rightarrow> Inl e
      | Inr s' \<Rightarrow> match_ai_loop clock rest (n + 1, s', to_remove @ [p]))"

definition match_ai_players :: "(nat \<Rightarrow> rat) \<Rightarrow> nat \<times> service \<Rightarrow> error + nat \<times> service" where
  \<comment> \<open>\<^verbatim>\<open>_match_ai_players\<close>\<close>
  "match_ai_players clock ns =
     (case ns of (n, s) \<Rightarrow>
        (case match_ai_loop clock (ai_queue s) (n, s, []) of
           Inl e \<Rightarrow> Inl e
         | Inr (n', s', to_remove) \<Rightarrow>
             (case remove_matched AI to_remove s' of
                Inl e \<Rightarrow> Inl e
              | Inr s'' \<Rightarrow> Inr (n', s''))))"

definition process_matches :: "(nat \<Rightarrow> rat) \<Rightarrow> nat \<times> service \<Rightarrow> error + nat \<times> service" where
  \<comment> \<open>\<^verbatim>\<open>_process_matches\<close>, one tick: the human queue, the any queue, the AI queue.\<close>
  "process_matches clock ns =
     (case match_players clock HUMAN ns of
        Inl e \<Rightarrow> Inl e
      | Inr ns1 \<Rightarrow>
          (case match_players clock ANY ns1 of
             Inl e \<Rightarrow> Inl e
           | Inr ns2 \<Rightarrow> match_ai_players clock ns2))"

section \<open>Properties and scenarios\<close>

subsection \<open>What the specification compares the code with\<close>

definition clamp_spec :: "int \<Rightarrow> int \<Rightarrow> int \<Rightarrow> int" where
  \<comment> \<open>The specification's \<open>clamp(lo, hi, x)\<close>, to compare \<open>find_bot_level\<close> with.\<close>
  "clamp_spec lo hi x = (if x < lo then lo else if hi < x then hi else x)"

definition queues :: "service \<Rightarrow> queue list" where
  "queues s = [human_queue s, ai_queue s, any_queue s]"

definition holds :: "string \<Rightarrow> queue \<Rightarrow> bool" where
  \<comment> \<open>The queue stores a waiter with this identity.\<close>
  "holds a q = (a \<in> set (map (player_address \<circ> snd) q))"

definition index_consistent :: "service \<Rightarrow> bool" where
  \<comment> \<open>The specification's invariant: every identity of \<open>player_lookup\<close> is stored in
      exactly one of the three queues, and every stored waiter's identity is in
      \<open>player_lookup\<close>.\<close>
  "index_consistent s =
     (list_all (\<lambda>a. length (filter (holds a) (queues s)) = 1) (map fst (player_lookup s))
      \<and> list_all (\<lambda>p. player_address p \<in> set (map fst (player_lookup s)))
            (map snd (concat (queues s))))"

datatype operation = Enqueue rat MatchmakingRequest | Cancel string

fun apply_operation :: "service \<Rightarrow> operation \<Rightarrow> service" where
  \<comment> \<open>An enqueue that raises has written nothing: the service is as before.\<close>
  "apply_operation s (Enqueue now request) =
     (case queue_player now s request of Inl err \<Rightarrow> s | Inr (status, s') \<Rightarrow> s')"
| "apply_operation s (Cancel address) = snd (cancel_queue s address)"

definition run :: "service \<Rightarrow> operation list \<Rightarrow> service" where
  \<comment> \<open>A sequence of enqueue and cancel calls, in order.\<close>
  "run s ops = foldl apply_operation s ops"

subsection \<open>Data of the scenarios\<close>

definition request :: "string \<Rightarrow> int \<Rightarrow> OpponentType \<Rightarrow> MatchmakingRequest" where
  \<comment> \<open>A request that carries the rating \<open>e\<close>, with the default rating window of the
      schema, 0 to 3000.\<close>
  "request a e t = \<lparr>req_player = a, req_player_elo = Some e, req_preferred_opponent = t,
                    req_min_elo = 0, req_max_elo = 3000\<rparr>"

definition waiter :: "string \<Rightarrow> int \<Rightarrow> OpponentType \<Rightarrow> rat \<Rightarrow> QueuedPlayer" where
  \<comment> \<open>The entry \<open>queue_player\<close> stores for such a request made at \<open>now\<close>.\<close>
  "waiter a e t now = \<lparr>player_address = a, elo = e, preferred_opponent = t, queued_at = now,
                       min_elo = 0, max_elo = 3000\<rparr>"

definition const_clock :: "rat \<Rightarrow> nat \<Rightarrow> rat" where
  \<comment> \<open>A clock that shows \<open>t\<close> at every reading of a tick.\<close>
  "const_clock t n = t"

definition microsecond_clock :: "rat \<Rightarrow> nat \<Rightarrow> rat" where
  \<comment> \<open>A clock that starts at \<open>t\<close> and advances one microsecond per reading.\<close>
  "microsecond_clock t n = t + of_nat n / 1000000"

section \<open>The synthetic-opponent catalog\<close>

text \<open>
  C9. For every integer rating the level is the clamped linear transform
  \<open>clamp(1, 10, (rating - 200) / 200 + 1)\<close>, the division rounding down, and it lies
  between 1 and 10 inclusive.
\<close>

theorem find_bot_level_clamp:
  "find_bot_level rating = clamp_spec 1 10 ((rating - 200) div 200 + 1)
   \<and> 1 \<le> find_bot_level rating \<and> find_bot_level rating \<le> 10"
proof -
  have "find_bot_level rating = clamp_spec 1 10 ((rating - 200) div 200 + 1)"
    by (simp add: find_bot_level_def clamp_spec_def)
  moreover have "1 \<le> find_bot_level rating"
    by (simp add: find_bot_level_def)
  moreover have "find_bot_level rating \<le> 10"
    by (simp add: find_bot_level_def)
  ultimately show ?thesis by simp
qed

lemma bot_configs_keys: "map fst bot_configs = [1, 2, 3, 4, 5, 6, 7, 8, 9, 10]"
  by (simp add: bot_configs_def)

lemma bot_configs_dom: "fst ` set bot_configs = {1..10}"
proof -
  have "fst ` set bot_configs = set (map fst bot_configs)" by simp
  also have "\<dots> = {1, 2, 3, 4, 5, 6, 7, 8, 9, 10}" by (simp only: bot_configs_keys) simp
  also have "\<dots> = {1..10::int}" by auto arith
  finally show ?thesis .
qed

lemma find_bot_level_range: "find_bot_level e \<in> {1..10}"
  by (simp add: find_bot_level_def)

lemma bot_config_found: "\<exists>cfg. map_of bot_configs (find_bot_level e) = Some cfg"
proof -
  have "find_bot_level e \<in> fst ` set bot_configs"
    using find_bot_level_range bot_configs_dom by simp
  then have "find_bot_level e \<in> dom (map_of bot_configs)"
    by (simp add: dom_map_of_conv_image_fst)
  then show ?thesis by blast
qed

lemma create_bot_match_returns: "\<exists>s'. create_bot_match t s p = Inr s'"
proof -
  obtain cfg where "map_of bot_configs (find_bot_level (elo p)) = Some cfg"
    using bot_config_found by blast
  then show ?thesis by (simp add: create_bot_match_def Let_def)
qed

text \<open>
  C10. The keys of the bot configuration table are exactly 1 to 10, the level computed
  for any rating is one of them, and so \<open>create_bot_match\<close> never ends in \<open>KeyError\<close>:
  for every player, clock reading and service it returns a service.
\<close>

theorem create_bot_match_no_key_error:
  "set (map fst bot_configs) = {1..10}
   \<and> (\<exists>cfg. map_of bot_configs (find_bot_level (elo p)) = Some cfg)
   \<and> (\<exists>s'. create_bot_match t s p = Inr s')"
proof -
  have "set (map fst bot_configs) = {1..10}"
    using bot_configs_dom by simp
  with bot_config_found [of "elo p"] create_bot_match_returns [of t s p]
  show ?thesis by blast
qed

section \<open>Rating-window expansion\<close>

lemma expanded_range_formula:
  "expanded_range w = 200 + max 0 \<lfloor>(w - 30) / 10\<rfloor> * 50"
proof (cases "30 < w")
  case True
  then have "0 \<le> (w - 30) / 10" by simp
  then have "0 \<le> \<lfloor>(w - 30) / 10\<rfloor>" by simp
  with True show ?thesis
    by (simp add: expanded_range_def MAX_WAIT_EXPAND_TIME_def ELO_RANGE_def
        ELO_EXPAND_RATE_def py_int_def)
next
  case False
  then have "(w - 30) / 10 \<le> 0" by simp
  then have "\<lfloor>(w - 30) / 10\<rfloor> \<le> 0" by (simp add: floor_le_zero)
  with False show ?thesis
    by (simp add: expanded_range_def MAX_WAIT_EXPAND_TIME_def ELO_RANGE_def
        ELO_EXPAND_RATE_def)
qed

lemma expanded_range_ge: "200 \<le> expanded_range w"
  by (simp add: expanded_range_formula)

text \<open>
  C8. The range a tick computes for a waiter who has waited \<open>w\<close> seconds is
  \<open>base_range + max(0, floor((w - expand_threshold) / 10)) * expand_step\<close> with the
  constants 200, 30 and 50, and it does not decrease when the wait time grows.
\<close>

theorem expanded_range_monotone:
  "expanded_range w =
     ELO_RANGE + max 0 \<lfloor>(w - MAX_WAIT_EXPAND_TIME) / 10\<rfloor> * ELO_EXPAND_RATE
   \<and> ELO_RANGE = 200 \<and> MAX_WAIT_EXPAND_TIME = 30 \<and> ELO_EXPAND_RATE = 50
   \<and> (\<forall>w'. w \<le> w' \<longrightarrow> expanded_range w \<le> expanded_range w')"
proof -
  have mono: "expanded_range w \<le> expanded_range w'" if "w \<le> w'" for w'
  proof -
    from that have "(w - 30) / 10 \<le> (w' - 30) / 10" by simp
    then have "\<lfloor>(w - 30) / 10\<rfloor> \<le> \<lfloor>(w' - 30) / 10\<rfloor>" by (rule floor_mono)
    then show ?thesis by (simp add: expanded_range_formula)
  qed
  show ?thesis
    using mono expanded_range_formula [of w]
    by (simp add: MAX_WAIT_EXPAND_TIME_def ELO_RANGE_def ELO_EXPAND_RATE_def)
qed

theorem expanded_range_monotone_witness:
  "(45::rat) \<le> 61 \<and> expanded_range 45 \<le> expanded_range 61
   \<and> expanded_range 45 = 250 \<and> expanded_range 61 = 350"
proof -
  have le: "(45::rat) \<le> 61" by simp
  have a: "expanded_range 45 = 250" by code_simp
  have b: "expanded_range 61 = 350" by code_simp
  from expanded_range_monotone [of 45] le have "expanded_range 45 \<le> expanded_range 61"
    by blast
  with le a b show ?thesis by simp
qed

section \<open>Enqueue and cancel\<close>

lemma get_set_queue [simp]: "get_queue (set_queue t q s) t = q"
  by (cases t) (simp_all add: get_queue_def set_queue_def)

lemma player_lookup_set_queue [simp]: "player_lookup (set_queue t q s) = player_lookup s"
  by (cases t) (simp_all add: set_queue_def)

lemma get_queue_lookup_update [simp]:
  "get_queue (s\<lparr>player_lookup := l\<rparr>) t = get_queue s t"
  by (simp add: get_queue_def)

text \<open>
  How \<open>queue_player\<close> ends: with \<open>AttributeError\<close> on a request without a rating, with
  \<open>OverflowError\<close> on a rating whose hundredth no double holds, and with a status
  otherwise. It has no other failure.
\<close>

lemma elo_bucket_error: "elo_bucket e = Inl err \<Longrightarrow> err = OverflowError"
  by (simp add: elo_bucket_def split: if_splits)

lemma queue_player_no_elo:
  "req_player_elo r = None \<Longrightarrow> queue_player now s r = Inl AttributeError"
  by (simp add: queue_player_def)

lemma queue_player_overflow:
  "req_player_elo r = Some e \<Longrightarrow> elo_bucket e = Inl err \<Longrightarrow> queue_player now s r = Inl OverflowError"
  using elo_bucket_error [of e err] by (simp add: queue_player_def)

lemma queue_player_stores:
  "req_player_elo r = Some e \<Longrightarrow> elo_bucket e = Inr b \<Longrightarrow>
     queue_player now s r = Inr (store_player now s r e b)"
  by (simp add: queue_player_def)

lemma queue_player_error:
  assumes "queue_player now s r = Inl err"
  shows "err = AttributeError \<and> req_player_elo r = None
         \<or> err = OverflowError \<and> (\<exists>e. req_player_elo r = Some e \<and> elo_bucket e = Inl OverflowError)"
proof (cases "req_player_elo r")
  case None
  with assms show ?thesis by (simp add: queue_player_def)
next
  case (Some e)
  show ?thesis
  proof (cases "elo_bucket e")
    case (Inl err')
    then have "err' = OverflowError" by (rule elo_bucket_error)
    with Some Inl assms show ?thesis by (simp add: queue_player_def)
  next
    case (Inr b)
    with Some assms show ?thesis by (simp add: queue_player_def)
  qed
qed

text \<open>
  The float arithmetic at work. A rating beyond \<open>2^53\<close>: the hundredth of
  \<open>10^18 + 100\<close> lies halfway between two doubles and goes to the even one, so the
  bucket is \<open>10^18\<close>. A clock reading: the double nearest to 1762214400.001 is below
  it, and its product with 1000 rounds up to the whole millisecond.
\<close>

lemma elo_bucket_past_2_53: "elo_bucket 1000000000000000100 = Inr 1000000000000000000"
  by code_simp

lemma generate_game_id_rounds_product: "generate_game_id (1762214400001 / 1000) = 2214400001"
  by code_simp

lemma store_player_status:
  "fst (store_player now s r e b) =
     \<lparr>is_queued = True,
      queue_position = get_queue_position (snd (store_player now s r e b))
         \<lparr>player_address = req_player r, elo = e,
          preferred_opponent = req_preferred_opponent r, queued_at = now,
          min_elo = req_min_elo r, max_elo = req_max_elo r\<rparr>,
      estimated_wait_seconds =
         estimate_wait_time (snd (store_player now s r e b)) (req_preferred_opponent r),
      status_preferred_opponent = req_preferred_opponent r\<rparr>"
  by (simp add: store_player_def Let_def)

lemma store_player_lookup:
  "map_of (player_lookup (snd (store_player now s r e b))) (req_player r) = Some b"
  by (simp add: store_player_def Let_def update_conv')

lemma store_player_stored:
  "map_of (get_queue (snd (store_player now s r e b)) (req_preferred_opponent r)) b
     = Some \<lparr>player_address = req_player r, elo = e,
          preferred_opponent = req_preferred_opponent r, queued_at = now,
          min_elo = req_min_elo r, max_elo = req_max_elo r\<rparr>"
  by (simp add: store_player_def Let_def update_conv')

lemma index_consistent_init: "index_consistent init"
  by code_simp

lemma index_consistent_two_buckets:
  "index_consistent
     (run init [Enqueue 0 (request ''A'' 1000 HUMAN), Enqueue 1 (request ''B'' 1100 HUMAN),
                Cancel ''A''])"
  by code_simp

text \<open>
  C1. The claim: after every sequence of enqueue and cancel calls from the empty
  service, every identity of \<open>player_lookup\<close> is stored in exactly one queue and every
  stored waiter is in \<open>player_lookup\<close>. The code breaks it: two enqueues of \<open>A\<close> and
  \<open>B\<close> with rating 1000 into the human queue leave \<open>B\<close> alone under bucket 1000, since
  the assignment to the bucket replaces \<open>A\<close>'s entry, while \<open>player_lookup\<close> still
  holds \<open>A\<close>.
\<close>

theorem enqueue_same_bucket_breaks_index:
  "run init [Enqueue 0 (request ''A'' 1000 HUMAN), Enqueue 1 (request ''B'' 1000 HUMAN)]
     = \<lparr>human_queue = [(1000, waiter ''B'' 1000 HUMAN 1)], ai_queue = [], any_queue = [],
        player_lookup = [(''A'', 1000), (''B'', 1000)], active_games = []\<rparr>
   \<and> \<not> index_consistent
         (run init [Enqueue 0 (request ''A'' 1000 HUMAN), Enqueue 1 (request ''B'' 1000 HUMAN)])"
proof -
  have state:
    "run init [Enqueue 0 (request ''A'' 1000 HUMAN), Enqueue 1 (request ''B'' 1000 HUMAN)]
       = \<lparr>human_queue = [(1000, waiter ''B'' 1000 HUMAN 1)], ai_queue = [], any_queue = [],
          player_lookup = [(''A'', 1000), (''B'', 1000)], active_games = []\<rparr>"
    by code_simp
  have "\<not> index_consistent
         \<lparr>human_queue = [(1000, waiter ''B'' 1000 HUMAN 1)], ai_queue = [], any_queue = [],
          player_lookup = [(''A'', 1000), (''B'', 1000)], active_games = []\<rparr>"
    by code_simp
  with state show ?thesis by simp
qed

text \<open>
  C2, the claim refuted at the specification's own scenario: \<open>A\<close> and \<open>B\<close>, both rated
  1000, enqueue for a human opponent. The second call does not fail: it returns a
  status with \<open>is_queued\<close> set, and the human queue then stores \<open>B\<close> only. \<open>A\<close> has not
  remained.
\<close>

theorem second_enqueue_same_bucket_returns:
  "queue_player 0 init (request ''A'' 1000 HUMAN)
     = Inr (\<lparr>is_queued = True, queue_position = 1, estimated_wait_seconds = 15,
             status_preferred_opponent = HUMAN\<rparr>,
            \<lparr>human_queue = [(1000, waiter ''A'' 1000 HUMAN 0)], ai_queue = [], any_queue = [],
             player_lookup = [(''A'', 1000)], active_games = []\<rparr>)
   \<and> queue_player 1
        \<lparr>human_queue = [(1000, waiter ''A'' 1000 HUMAN 0)], ai_queue = [], any_queue = [],
         player_lookup = [(''A'', 1000)], active_games = []\<rparr>
        (request ''B'' 1000 HUMAN)
     = Inr (\<lparr>is_queued = True, queue_position = 1, estimated_wait_seconds = 15,
             status_preferred_opponent = HUMAN\<rparr>,
            \<lparr>human_queue = [(1000, waiter ''B'' 1000 HUMAN 1)], ai_queue = [], any_queue = [],
             player_lookup = [(''A'', 1000), (''B'', 1000)], active_games = []\<rparr>)"
  by code_simp

text \<open>
  C2, as the code has it. \<open>queue_player\<close> has no collision policy and no
  \<open>DuplicateBucket\<close> failure. When two requests carry ratings whose bucket keys are
  computed and equal, and ask for the same queue category, both enqueues return: the
  second returns a status with \<open>is_queued\<close> set and the requested preference, and
  \<open>player_lookup\<close> then maps the second identity to the shared bucket key. (A request
  without a rating ends in \<open>AttributeError\<close> and a rating beyond the doubles in
  \<open>OverflowError\<close>, whatever the queue holds: \<open>queue_player_error\<close>.)
\<close>

theorem queue_player_same_bucket:
  assumes e1: "req_player_elo r1 = Some e1" and e2: "req_player_elo r2 = Some e2"
    and b1: "elo_bucket e1 = Inr b" and b2: "elo_bucket e2 = Inr b"
    and cat: "req_preferred_opponent r1 = req_preferred_opponent r2"
  shows "\<exists>st1 s1 st2 s2.
      queue_player t1 s r1 = Inr (st1, s1) \<and> queue_player t2 s1 r2 = Inr (st2, s2)
      \<and> is_queued st2 \<and> status_preferred_opponent st2 = req_preferred_opponent r1
      \<and> map_of (player_lookup s2) (req_player r2) = Some b"
proof -
  obtain st1 s1 where first: "store_player t1 s r1 e1 b = (st1, s1)"
    by (cases "store_player t1 s r1 e1 b") auto
  obtain st2 s2 where second: "store_player t2 s1 r2 e2 b = (st2, s2)"
    by (cases "store_player t2 s1 r2 e2 b") auto
  have q1: "queue_player t1 s r1 = Inr (st1, s1)"
    using queue_player_stores [OF e1 b1, of t1 s] first by simp
  have q2: "queue_player t2 s1 r2 = Inr (st2, s2)"
    using queue_player_stores [OF e2 b2, of t2 s1] second by simp
  have "is_queued st2" and "status_preferred_opponent st2 = req_preferred_opponent r2"
    using store_player_status [of t2 s1 r2 e2 b] second by simp_all
  moreover have "map_of (player_lookup s2) (req_player r2) = Some b"
    using store_player_lookup [of t2 s1 r2 e2 b] second by simp
  ultimately show ?thesis using q1 q2 cat by auto
qed

theorem queue_player_same_bucket_witness:
  "req_player_elo (request ''A'' 1000 HUMAN) = Some 1000
   \<and> req_player_elo (request ''B'' 1050 HUMAN) = Some 1050
   \<and> elo_bucket 1000 = Inr 1000 \<and> elo_bucket 1050 = Inr 1000
   \<and> req_preferred_opponent (request ''A'' 1000 HUMAN)
       = req_preferred_opponent (request ''B'' 1050 HUMAN)
   \<and> (\<exists>st1 s1 st2 s2.
        queue_player 0 init (request ''A'' 1000 HUMAN) = Inr (st1, s1)
        \<and> queue_player 1 s1 (request ''B'' 1050 HUMAN) = Inr (st2, s2)
        \<and> is_queued st2
        \<and> status_preferred_opponent st2 = req_preferred_opponent (request ''A'' 1000 HUMAN)
        \<and> map_of (player_lookup s2) (req_player (request ''B'' 1050 HUMAN)) = Some 1000)"
proof -
  have e1: "req_player_elo (request ''A'' 1000 HUMAN) = Some 1000"
    by (simp add: request_def)
  have e2: "req_player_elo (request ''B'' 1050 HUMAN) = Some 1050"
    by (simp add: request_def)
  have b1: "elo_bucket 1000 = Inr 1000" by code_simp
  have b2: "elo_bucket 1050 = Inr 1000" by code_simp
  have cat: "req_preferred_opponent (request ''A'' 1000 HUMAN)
       = req_preferred_opponent (request ''B'' 1050 HUMAN)"
    by (simp add: request_def)
  from queue_player_same_bucket [OF e1 e2 b1 b2 cat, of 0 init 1] e1 e2 b1 b2 cat
  show ?thesis by blast
qed

text \<open>
  C4, the claim refuted: \<open>A\<close> is in \<open>player_lookup\<close> after its first enqueue, and its
  second enqueue, with rating 1200, does not fail: it returns a status with
  \<open>is_queued\<close> set, and the human queue then stores \<open>A\<close> twice.
\<close>

theorem duplicate_enqueue_returns:
  "queue_player 1
        \<lparr>human_queue = [(1000, waiter ''A'' 1000 HUMAN 0)], ai_queue = [], any_queue = [],
         player_lookup = [(''A'', 1000)], active_games = []\<rparr>
        (request ''A'' 1200 HUMAN)
     = Inr (\<lparr>is_queued = True, queue_position = 2, estimated_wait_seconds = 15,
             status_preferred_opponent = HUMAN\<rparr>,
            \<lparr>human_queue = [(1000, waiter ''A'' 1000 HUMAN 0), (1200, waiter ''A'' 1200 HUMAN 1)],
             ai_queue = [], any_queue = [], player_lookup = [(''A'', 1200)],
             active_games = []\<rparr>)
   \<and> run init [Enqueue 0 (request ''A'' 1000 HUMAN)]
     = \<lparr>human_queue = [(1000, waiter ''A'' 1000 HUMAN 0)], ai_queue = [], any_queue = [],
        player_lookup = [(''A'', 1000)], active_games = []\<rparr>"
  by code_simp

text \<open>
  C4, as the code has it. \<open>queue_player\<close> does not look the identity up and has no
  \<open>DuplicateEnqueue\<close> failure. An enqueue request whose identity is already in
  \<open>player_lookup\<close>, and which carries a rating whose bucket key is computed, succeeds:
  it returns a status with \<open>is_queued\<close> set and the requested preference,
  \<open>player_lookup\<close> then maps the identity to the bucket of the new request, and the
  queue of the requested category stores the new waiter under that bucket. (A request
  without a rating ends in \<open>AttributeError\<close> and a rating beyond the doubles in
  \<open>OverflowError\<close>, whether the identity is queued or not: \<open>queue_player_error\<close>.)
\<close>

theorem queue_player_duplicate_identity:
  assumes dup: "req_player r \<in> set (map fst (player_lookup s))"
    and e: "req_player_elo r = Some e" and b: "elo_bucket e = Inr b"
  shows "\<exists>st s'.
      queue_player now s r = Inr (st, s')
      \<and> is_queued st \<and> status_preferred_opponent st = req_preferred_opponent r
      \<and> map_of (player_lookup s') (req_player r) = Some b
      \<and> map_of (get_queue s' (req_preferred_opponent r)) b
          = Some \<lparr>player_address = req_player r, elo = e,
               preferred_opponent = req_preferred_opponent r, queued_at = now,
               min_elo = req_min_elo r, max_elo = req_max_elo r\<rparr>"
proof -
  obtain st s' where st: "store_player now s r e b = (st, s')"
    by (cases "store_player now s r e b") auto
  have q: "queue_player now s r = Inr (st, s')"
    using queue_player_stores [OF e b, of now s] st by simp
  have "is_queued st" and "status_preferred_opponent st = req_preferred_opponent r"
    using store_player_status [of now s r e b] st by simp_all
  moreover have "map_of (player_lookup s') (req_player r) = Some b"
    using store_player_lookup [of now s r e b] st by simp
  moreover have "map_of (get_queue s' (req_preferred_opponent r)) b
          = Some \<lparr>player_address = req_player r, elo = e,
               preferred_opponent = req_preferred_opponent r, queued_at = now,
               min_elo = req_min_elo r, max_elo = req_max_elo r\<rparr>"
    using store_player_stored [of now s r e b] st by simp
  ultimately show ?thesis using q by blast
qed

theorem queue_player_duplicate_identity_witness:
  "req_player (request ''A'' 1200 HUMAN)
     \<in> set (map fst (player_lookup (run init [Enqueue 0 (request ''A'' 1000 HUMAN)])))
   \<and> req_player_elo (request ''A'' 1200 HUMAN) = Some 1200
   \<and> elo_bucket 1200 = Inr 1200
   \<and> (\<exists>st s'.
        queue_player 1 (run init [Enqueue 0 (request ''A'' 1000 HUMAN)])
            (request ''A'' 1200 HUMAN) = Inr (st, s')
        \<and> is_queued st
        \<and> map_of (player_lookup s') (req_player (request ''A'' 1200 HUMAN)) = Some 1200)"
proof -
  have dup: "req_player (request ''A'' 1200 HUMAN)
     \<in> set (map fst (player_lookup (run init [Enqueue 0 (request ''A'' 1000 HUMAN)])))"
    by code_simp
  have e: "req_player_elo (request ''A'' 1200 HUMAN) = Some 1200"
    by (simp add: request_def)
  have b: "elo_bucket 1200 = Inr 1200" by code_simp
  from queue_player_duplicate_identity [OF dup e b, of 1] dup e b
  show ?thesis by blast
qed

lemma cancel_queue_absent:
  "map_of (player_lookup s) address = None \<Longrightarrow> cancel_queue s address = (False, s)"
  by (simp add: cancel_queue_def)

lemma cancel_queue_present:
  "map_of (player_lookup s) address = Some b \<Longrightarrow> fst (cancel_queue s address)"
  by (simp add: cancel_queue_def)

lemma cancel_queue_twice:
  "cancel_queue (snd (cancel_queue s address)) address = (False, snd (cancel_queue s address))"
proof (cases "map_of (player_lookup s) address")
  case None
  then show ?thesis by (simp add: cancel_queue_def)
next
  case (Some b)
  then have "map_of (player_lookup (snd (cancel_queue s address))) address = None"
    by (simp add: cancel_queue_def delete_conv')
  then show ?thesis by (rule cancel_queue_absent)
qed

text \<open>
  C5. The claim: a cancel removes the canceling player's entry only, leaves every other
  waiter of every queue as it was, and answers false for an absent identity (true, then
  false, on two calls in a row). The answers are as claimed (\<open>cancel_queue_absent\<close>,
  \<open>cancel_queue_present\<close>, \<open>cancel_queue_twice\<close>); the frame is not. With \<open>A\<close> in the
  human queue and \<open>B\<close> in the any queue, both under bucket 1000, the cancel of \<open>A\<close> pops
  bucket 1000 from all three queues: \<open>B\<close>'s entry is gone, and \<open>B\<close> stays in
  \<open>player_lookup\<close>.
\<close>

theorem cancel_removes_other_waiter:
  "run init [Enqueue 0 (request ''A'' 1000 HUMAN), Enqueue 1 (request ''B'' 1000 ANY)]
     = \<lparr>human_queue = [(1000, waiter ''A'' 1000 HUMAN 0)], ai_queue = [],
        any_queue = [(1000, waiter ''B'' 1000 ANY 1)],
        player_lookup = [(''A'', 1000), (''B'', 1000)], active_games = []\<rparr>
   \<and> cancel_queue
        (run init [Enqueue 0 (request ''A'' 1000 HUMAN), Enqueue 1 (request ''B'' 1000 ANY)])
        ''A''
     = (True, \<lparr>human_queue = [], ai_queue = [], any_queue = [],
               player_lookup = [(''B'', 1000)], active_games = []\<rparr>)"
  by code_simp

section \<open>Properties of the pairing tick\<close>

text \<open>
  The two loops of a tick never end in an exception of the model: the \<open>KeyError\<close> of the
  catalog lookup does not occur. The removal loop divides again, so a tick over a queue
  that holds a rating beyond the doubles can end in \<open>OverflowError\<close>, and in nothing
  else.
\<close>

lemma match_player_returns: "\<exists>st'. match_player clock queue_type items p st = Inr st'"
proof -
  obtain n s to_remove where st: "st = (n, s, to_remove)" by (cases st) auto
  show ?thesis
  proof (cases "p \<in> set to_remove")
    case True
    with st show ?thesis by (simp add: match_player_def)
  next
    case False
    obtain n1 s1 to_remove1 where st1:
      "(case find_partner items p to_remove (expanded_range (wait_time (clock n) p)) of
          None \<Rightarrow> (n + 1, s, to_remove)
        | Some other_player \<Rightarrow>
            (n + 2, create_match (clock (n + 1)) s p other_player False None,
             to_remove @ [p, other_player])) = (n1, s1, to_remove1)"
      using prod_cases3 by blast
    obtain s2 where "create_bot_match (clock (n1 + 1)) s1 p = Inr s2"
      using create_bot_match_returns by blast
    with st False st1 show ?thesis
      by (simp add: match_player_def Let_def)
  qed
qed

lemma match_loop_returns: "\<exists>st'. match_loop clock queue_type items rest st = Inr st'"
proof (induction rest arbitrary: st)
  case Nil
  show ?case by (cases st) simp
next
  case (Cons entry rest)
  obtain b p where e: "entry = (b, p)" by (cases entry) auto
  obtain st1 where "match_player clock queue_type items p st = Inr st1"
    using match_player_returns by blast
  with e Cons.IH [of st1] show ?case by simp
qed

lemma match_ai_loop_returns: "\<exists>st'. match_ai_loop clock q st = Inr st'"
proof (induction q arbitrary: st)
  case Nil
  show ?case by (cases st) simp
next
  case (Cons entry rest)
  obtain b p where e: "entry = (b, p)" by (cases entry) auto
  obtain n s to_remove where st: "st = (n, s, to_remove)" by (cases st) auto
  obtain s1 where "create_bot_match (clock n) s p = Inr s1"
    using create_bot_match_returns by blast
  with e st Cons.IH [of "(n + 1, s1, to_remove @ [p])"] show ?case by simp
qed

lemma remove_matched_error:
  "remove_matched queue_type to_remove s = Inl err \<Longrightarrow> err = OverflowError"
proof (induction to_remove arbitrary: s)
  case Nil
  then show ?case by simp
next
  case (Cons p to_remove)
  show ?case
  proof (cases "elo_bucket (elo p)")
    case (Inl err')
    with Cons.prems have "err = err'" by simp
    with Inl show ?thesis using elo_bucket_error by blast
  next
    case (Inr b)
    with Cons.prems Cons.IH show ?thesis by simp
  qed
qed

lemma match_players_error:
  assumes "match_players clock queue_type ns = Inl err"
  shows "err = OverflowError"
proof -
  obtain n s where ns: "ns = (n, s)" by (cases ns) auto
  obtain n' s' to_remove where
    "match_loop clock queue_type (get_queue s queue_type) (get_queue s queue_type) (n, s, [])
       = Inr (n', s', to_remove)"
    using match_loop_returns prod_cases3 by metis
  with ns assms have "remove_matched queue_type to_remove s' = Inl err"
    by (simp add: match_players_def split: sum.splits)
  then show ?thesis by (rule remove_matched_error)
qed

lemma match_ai_players_error:
  assumes "match_ai_players clock ns = Inl err"
  shows "err = OverflowError"
proof -
  obtain n s where ns: "ns = (n, s)" by (cases ns) auto
  obtain n' s' to_remove where
    "match_ai_loop clock (ai_queue s) (n, s, []) = Inr (n', s', to_remove)"
    using match_ai_loop_returns prod_cases3 by metis
  with ns assms have "remove_matched AI to_remove s' = Inl err"
    by (simp add: match_ai_players_def split: sum.splits)
  then show ?thesis by (rule remove_matched_error)
qed

lemma process_matches_error:
  assumes "process_matches clock ns = Inl err"
  shows "err = OverflowError"
  using assms match_players_error match_ai_players_error
  by (auto simp: process_matches_def split: sum.splits)

text \<open>
  C3. The claim: from every queue state, a tick never makes a pairing that names one
  identity twice and never pairs a waiter that an earlier pairing of the tick consumed.
  The loop tells waiters apart by comparing whole records. After \<open>A\<close> has enqueued
  twice for a human opponent, with ratings 1000 and 1200, the human queue stores two
  different records of \<open>A\<close>, and the tick pairs \<open>A\<close> with \<open>A\<close>.
\<close>

theorem tick_pairs_identity_with_itself:
  "process_matches (const_clock 5)
     (0, run init [Enqueue 0 (request ''A'' 1000 HUMAN), Enqueue 1 (request ''A'' 1200 HUMAN)])
   = Inr (2, \<lparr>human_queue = [], ai_queue = [], any_queue = [], player_lookup = [],
              active_games =
                [(5000, \<lparr>player1 = ''A'', player2 = ''A'', player1_elo = 1000,
                         player2_elo = 1200, game_id = 5000, is_bot_match = False,
                         bot_level = None\<rparr>)]\<rparr>)"
  by code_simp

text \<open>
  C6. The claim: the pairings of a tick get session ids that differ from each other and
  from every live session's, and each pairing is in \<open>active_games\<close> when the tick
  returns. The id is the clock's millisecond count modulo \<open>10^10\<close>. With four waiters
  in the human queue and a clock that advances one microsecond per reading, the tick
  pairs \<open>A\<close> with \<open>B\<close> and \<open>C\<close> with \<open>D\<close> under the same id 123000; the second
  pairing replaces the first in \<open>active_games\<close>, which ends with one entry while all
  four waiters have left the queue.
\<close>

theorem tick_reuses_game_id:
  "generate_game_id (microsecond_clock 1700000123 1) = 123000
   \<and> generate_game_id (microsecond_clock 1700000123 3) = 123000
   \<and> process_matches (microsecond_clock 1700000123)
       (0, run init [Enqueue 1700000100 (request ''A'' 1000 HUMAN),
                     Enqueue 1700000101 (request ''B'' 1100 HUMAN),
                     Enqueue 1700000102 (request ''C'' 1500 HUMAN),
                     Enqueue 1700000103 (request ''D'' 1600 HUMAN)])
     = Inr (4, \<lparr>human_queue = [], ai_queue = [], any_queue = [], player_lookup = [],
                active_games =
                  [(123000, \<lparr>player1 = ''D'', player2 = ''C'', player1_elo = 1600,
                             player2_elo = 1500, game_id = 123000, is_bot_match = False,
                             bot_level = None\<rparr>)]\<rparr>)"
  by code_simp

text \<open>
  C7, the claim refuted at its own scenario: \<open>A\<close> (1000) and \<open>B\<close> (1050) enqueue for a
  human opponent at the same instant. Both ratings round to bucket 1000 (\<open>10.5\<close>
  rounds to the even 10), so \<open>B\<close> has replaced \<open>A\<close> in the queue; the tick two seconds
  later finds one waiter, pairs nobody and leaves \<open>B\<close> in the human queue.
\<close>

theorem tick_after_1000_and_1050:
  "elo_bucket 1000 = Inr 1000 \<and> elo_bucket 1050 = Inr 1000
   \<and> process_matches (const_clock 2)
       (0, run init [Enqueue 0 (request ''A'' 1000 HUMAN), Enqueue 0 (request ''B'' 1050 HUMAN)])
     = Inr (1, \<lparr>human_queue = [(1000, waiter ''B'' 1050 HUMAN 0)], ai_queue = [],
                any_queue = [], player_lookup = [(''A'', 1000), (''B'', 1000)],
                active_games = []\<rparr>)"
  by code_simp

text \<open>
  C7, as the code has it. Two players \<open>A\<close> and \<open>B\<close> with different identities, both
  asking for a human opponent, carry ratings that differ by at most 200 and whose bucket
  keys are computed and different (the claim's own ratings, 1000 and 1050, share the
  bucket 1000 and meet the overwrite of C1). They enqueue in this order into the empty
  service. Both enqueues return, and whatever the clock shows, one tick then empties
  the human queue and \<open>player_lookup\<close> and records exactly one pairing, which links the
  two with the higher-rated one on the first side.
\<close>

theorem human_pair_tick:
  assumes hA: "req_preferred_opponent rA = HUMAN"
    and hB: "req_preferred_opponent rB = HUMAN"
    and ne: "req_player rA \<noteq> req_player rB"
    and eA: "req_player_elo rA = Some eA" and eB: "req_player_elo rB = Some eB"
    and bA: "elo_bucket eA = Inr bA" and bB: "elo_bucket eB = Inr bB"
    and bk: "bA \<noteq> bB"
    and cl: "\<bar>eA - eB\<bar> \<le> 200"
  shows "\<exists>stA sA stB sB.
      queue_player tA init rA = Inr (stA, sA) \<and> queue_player tB sA rB = Inr (stB, sB)
      \<and> process_matches clock (n, sB)
          = Inr (n + 2,
              \<lparr>human_queue = [], ai_queue = [], any_queue = [], player_lookup = [],
               active_games =
                 [(generate_game_id (clock (n + 1)),
                   \<lparr>player1 = (if eA \<ge> eB then req_player rA else req_player rB),
                    player2 = (if eA \<ge> eB then req_player rB else req_player rA),
                    player1_elo = max eA eB,
                    player2_elo = min eA eB,
                    game_id = generate_game_id (clock (n + 1)),
                    is_bot_match = False, bot_level = None\<rparr>)]\<rparr>)"
proof -
  obtain stA sA where first: "store_player tA init rA eA bA = (stA, sA)"
    by (cases "store_player tA init rA eA bA") auto
  obtain stB sB where second: "store_player tB sA rB eB bB = (stB, sB)"
    by (cases "store_player tB sA rB eB bB") auto
  have qA: "queue_player tA init rA = Inr (stA, sA)"
    using queue_player_stores [OF eA bA, of tA init] first by simp
  have qB: "queue_player tB sA rB = Inr (stB, sB)"
    using queue_player_stores [OF eB bB, of tB sA] second by simp
  from first hA have sA: "sA =
      \<lparr>human_queue = [(bA, \<lparr>player_address = req_player rA, elo = eA,
                              preferred_opponent = HUMAN, queued_at = tA,
                              min_elo = req_min_elo rA, max_elo = req_max_elo rA\<rparr>)],
       ai_queue = [], any_queue = [], player_lookup = [(req_player rA, bA)],
       active_games = []\<rparr>"
    by (auto simp: store_player_def init_def get_queue_def set_queue_def Let_def)
  from second hB bk ne have sB: "sB =
      \<lparr>human_queue = [(bA, \<lparr>player_address = req_player rA, elo = eA,
                              preferred_opponent = HUMAN, queued_at = tA,
                              min_elo = req_min_elo rA, max_elo = req_max_elo rA\<rparr>),
                      (bB, \<lparr>player_address = req_player rB, elo = eB,
                              preferred_opponent = HUMAN, queued_at = tB,
                              min_elo = req_min_elo rB, max_elo = req_max_elo rB\<rparr>)],
       ai_queue = [], any_queue = [],
       player_lookup = [(req_player rA, bA), (req_player rB, bB)],
       active_games = []\<rparr>"
    unfolding sA by (auto simp: store_player_def get_queue_def set_queue_def Let_def)
  from bA bB bk have ne_elo: "eA \<noteq> eB" by auto
  have r: "\<bar>eB - eA\<bar> \<le> expanded_range w" for w
    using cl expanded_range_ge [of w] by linarith
  have tick: "process_matches clock (n, sB)
          = Inr (n + 2,
              \<lparr>human_queue = [], ai_queue = [], any_queue = [], player_lookup = [],
               active_games =
                 [(generate_game_id (clock (n + 1)),
                   \<lparr>player1 = (if eA \<ge> eB then req_player rA else req_player rB),
                    player2 = (if eA \<ge> eB then req_player rB else req_player rA),
                    player1_elo = max eA eB,
                    player2_elo = min eA eB,
                    game_id = generate_game_id (clock (n + 1)),
                    is_bot_match = False, bot_level = None\<rparr>)]\<rparr>)"
    unfolding sB using ne bk ne_elo r bA bB
    by (simp add: process_matches_def match_players_def match_player_def match_ai_players_def
        get_queue_def set_queue_def Let_def create_match_def)
  from qA qB tick show ?thesis by blast
qed

theorem human_pair_tick_witness:
  "req_preferred_opponent (request ''A'' 1000 HUMAN) = HUMAN
   \<and> req_preferred_opponent (request ''B'' 1100 HUMAN) = HUMAN
   \<and> req_player (request ''A'' 1000 HUMAN) \<noteq> req_player (request ''B'' 1100 HUMAN)
   \<and> req_player_elo (request ''A'' 1000 HUMAN) = Some 1000
   \<and> req_player_elo (request ''B'' 1100 HUMAN) = Some 1100
   \<and> elo_bucket 1000 = Inr 1000 \<and> elo_bucket 1100 = Inr 1100
   \<and> (1000::int) \<noteq> 1100 \<and> \<bar>(1000::int) - 1100\<bar> \<le> 200
   \<and> (\<exists>stA sA stB sB.
        queue_player 0 init (request ''A'' 1000 HUMAN) = Inr (stA, sA)
        \<and> queue_player 0 sA (request ''B'' 1100 HUMAN) = Inr (stB, sB)
        \<and> process_matches (const_clock 2) (0, sB)
            = Inr (2, \<lparr>human_queue = [], ai_queue = [], any_queue = [], player_lookup = [],
                       active_games =
                         [(2000, \<lparr>player1 = ''B'', player2 = ''A'', player1_elo = 1100,
                                  player2_elo = 1000, game_id = 2000, is_bot_match = False,
                                  bot_level = None\<rparr>)]\<rparr>))"
proof -
  have hA: "req_preferred_opponent (request ''A'' 1000 HUMAN) = HUMAN"
    by (simp add: request_def)
  have hB: "req_preferred_opponent (request ''B'' 1100 HUMAN) = HUMAN"
    by (simp add: request_def)
  have ne: "req_player (request ''A'' 1000 HUMAN) \<noteq> req_player (request ''B'' 1100 HUMAN)"
    by (simp add: request_def)
  have eA: "req_player_elo (request ''A'' 1000 HUMAN) = Some 1000"
    by (simp add: request_def)
  have eB: "req_player_elo (request ''B'' 1100 HUMAN) = Some 1100"
    by (simp add: request_def)
  have bA: "elo_bucket 1000 = Inr 1000" by code_simp
  have bB: "elo_bucket 1100 = Inr 1100" by code_simp
  have bk: "(1000::int) \<noteq> 1100" by simp
  have cl: "\<bar>(1000::int) - 1100\<bar> \<le> 200" by simp
  have gid: "generate_game_id (const_clock 2 (Suc 0)) = 2000" by code_simp
  have names: "req_player (request ''A'' 1000 HUMAN) = ''A''"
    "req_player (request ''B'' 1100 HUMAN) = ''B''"
    by (simp_all add: request_def)
  from human_pair_tick [OF hA hB ne eA eB bA bB bk cl, of 0 0 "const_clock 2" 0]
  have "\<exists>stA sA stB sB.
        queue_player 0 init (request ''A'' 1000 HUMAN) = Inr (stA, sA)
        \<and> queue_player 0 sA (request ''B'' 1100 HUMAN) = Inr (stB, sB)
        \<and> process_matches (const_clock 2) (0, sB)
            = Inr (2, \<lparr>human_queue = [], ai_queue = [], any_queue = [], player_lookup = [],
                       active_games =
                         [(2000, \<lparr>player1 = ''B'', player2 = ''A'', player1_elo = 1100,
                                  player2_elo = 1000, game_id = 2000, is_bot_match = False,
                                  bot_level = None\<rparr>)]\<rparr>)"
    by (simp add: gid names numeral_2_eq_2)
  with hA hB ne eA eB bA bB bk cl show ?thesis by blast
qed

end
